theory Spec2Isabelle
  imports Main "HOL-Library.Word"
begin

unbundle bit_operations_syntax

section \<open>Outcomes of Go calls\<close>

text \<open>
  A Go call either panics or returns. A panic is a value of the model, so that the
  nil dereference, the out-of-range index and the explicit \<open>panic(err)\<close> of the source
  are branches one can evaluate. Go strings and byte slices are \<open>string\<close> (a list of
  8-bit characters).
\<close>

record RPCError =
  Type :: string
  Tag_of :: string
  Severity :: string
  Path :: string
  Message :: string

text \<open>
  The field \<open>Tag\<close> of the source's RPCError is named \<open>Tag_of\<close> here, since
  \<open>Tag\<close> is the tag of an etree element below.

  The error values of the program: the opaque error of the markup reader
  (\<open>ReadFromBytes\<close>), the errors of \<open>fmt.Errorf\<close>, a device-reported error returned
  as \<open>&rpcErr\<close>, the errors of the transport, and the error of the key loader.
\<close>

datatype error =
    ReadError string
  | Errorf string
  | RPCErr RPCError
  | TransportError string
  | KeyError string

datatype panic = NilPointerDereference | IndexOutOfRange | PanicErr error

datatype 'a outcome = Panic panic | Return 'a

section \<open>The etree document model\<close>

text \<open>
  The reply is held in a document of the library \<open>github.com/beevik/etree\<close>, which is
  not part of the repository. Its data and the operations newRPCReply calls are
  modelled here from the library: an element has a namespace prefix, a tag, attributes
  and a list of child tokens; a token is an element, character data, a comment, a
  directive or a processing instruction. A document is an element with an empty tag
  whose children are the top-level tokens. A pointer \<open>*Element\<close> is an
  \<open>element option\<close>, \<open>None\<close> being nil.
\<close>

datatype 'e token =
    TElement 'e
  | TCharData string
  | TComment string
  | TDirective string
  | TProcInst string string

datatype element = Element (Space: string) (Tag: string)
  (Attr: "(string \<times> string) list") (Child: "element token list")

definition NewDocument :: element where
  "NewDocument = Element [] [] [] []"

definition with_children :: "element \<Rightarrow> element token list \<Rightarrow> element" where
  "with_children e ts = Element (Space e) (Tag e) (Attr e) ts"

fun elements_of :: "'e token list \<Rightarrow> 'e list" where
  "elements_of [] = []"
| "elements_of (TElement e # ts) = e # elements_of ts"
| "elements_of (_ # ts) = elements_of ts"

text \<open>\<open>ChildElements\<close>: the children that are elements, in order.\<close>

definition ChildElements :: "element \<Rightarrow> element list" where
  "ChildElements e = elements_of (Child e)"

text \<open>
  \<open>Text\<close>: the character data immediately following the element's opening tag (the
  leading run of character-data tokens).
\<close>

fun leading_text :: "'e token list \<Rightarrow> string" where
  "leading_text (TCharData s # ts) = s @ leading_text ts"
| "leading_text _ = []"

definition Text :: "element \<Rightarrow> string" where
  "Text e = leading_text (Child e)"

lemma size_elements_of:
  "sum_list (map size (elements_of ts)) \<le> size_list (size_token size) ts"
  by (induction ts rule: elements_of.induct) auto

lemma size_ChildElements: "sum_list (map size (ChildElements e)) < size e"
  using size_elements_of [of "Child e"] by (cases e) (simp add: ChildElements_def)

lemma size_child: "c \<in> set (ChildElements e) \<Longrightarrow> size c < size e"
  using size_ChildElements [of e] member_le_sum_list [of "size c" "map size (ChildElements e)"]
  by force

subsection \<open>Paths\<close>

text \<open>
  A compiled path is a list of segments, each a selector (none of the paths of
  newRPCReply has a filter). \<open>selectRoot\<close> selects the topmost ancestor,
  \<open>selectDescendants\<close> the element and all its descendants in breadth-first order
  (the library's queue loop, \<open>bfs\<close>), \<open>selectChildrenByTag\<close> the child elements with
  the tag. A tag written without a prefix matches every namespace prefix. An
  element of the model does not know its parent, so the topmost ancestor is passed along.
\<close>

datatype selector = SelectRoot | SelectDescendants | SelectChildrenByTag string

function bfs :: "element list \<Rightarrow> element list" where
  "bfs [] = []"
| "bfs (e # q) = e # bfs (q @ ChildElements e)"
  by pat_completeness auto
termination
  by (relation "measure (\<lambda>q. sum_list (map size q))")
     (use size_ChildElements in \<open>auto simp: less_Suc_eq_le\<close>)

fun apply_selector :: "element \<Rightarrow> selector \<Rightarrow> element \<Rightarrow> element list" where
  "apply_selector doc SelectRoot e = [doc]"
| "apply_selector doc SelectDescendants e = bfs [e]"
| "apply_selector doc (SelectChildrenByTag tag) e =
     filter (\<lambda>c. Tag c = tag) (ChildElements e)"

text \<open>
  The traversal evaluates the segments in turn: the candidates of one segment are the
  start of the next, in the order of the queue. The library drops an element it has
  already returned, by pointer; in a tree no element is reached twice by these paths,
  and equal values at two places are two elements, so nothing is dropped here.
\<close>

fun traverse :: "element \<Rightarrow> selector list \<Rightarrow> element list \<Rightarrow> element list" where
  "traverse doc [] cs = cs"
| "traverse doc (s # ss) cs = traverse doc ss (concat (map (apply_selector doc s) cs))"

definition FindElements :: "element \<Rightarrow> selector list \<Rightarrow> element \<Rightarrow> element list" where
  "FindElements doc path e = traverse doc path [e]"

definition FindElement :: "element \<Rightarrow> selector list \<Rightarrow> element \<Rightarrow> element option" where
  "FindElement doc path e =
     (case FindElements doc path e of [] \<Rightarrow> None | x # _ \<Rightarrow> Some x)"

text \<open>
  The compiled forms of the path strings of newRPCReply: a leading \<open>/\<close> is
  \<open>selectRoot\<close>, the empty segment of \<open>//\<close> is \<open>selectDescendants\<close>, a name is
  \<open>selectChildrenByTag\<close>.
\<close>

definition path_any :: "string \<Rightarrow> selector list" where
  "path_any tag = [SelectRoot, SelectDescendants, SelectChildrenByTag tag]"

definition path_child :: "string \<Rightarrow> selector list" where
  "path_child tag = [SelectChildrenByTag tag]"

subsection \<open>Replacing the root\<close>

text \<open>
  \<open>SetRoot(e)\<close> first unbinds \<open>e\<close> from its parent (\<open>e.parent.RemoveChild(e)\<close>), then
  puts \<open>e\<close> in the place of the document's first top-level element, or appends it
  when there is none. In newRPCReply \<open>e\<close> is the first child element of the first
  top-level element tagged \<open>rpc-reply\<close>; \<open>unbind_first_child\<close> is that RemoveChild.
\<close>

fun remove_first_element :: "'e token list \<Rightarrow> 'e token list" where
  "remove_first_element [] = []"
| "remove_first_element (TElement e # ts) = ts"
| "remove_first_element (t # ts) = t # remove_first_element ts"

fun unbind_first_child :: "string \<Rightarrow> element token list \<Rightarrow> element token list" where
  "unbind_first_child tag [] = []"
| "unbind_first_child tag (TElement w # ts) =
     (if Tag w = tag then TElement (with_children w (remove_first_element (Child w))) # ts
      else TElement w # unbind_first_child tag ts)"
| "unbind_first_child tag (t # ts) = t # unbind_first_child tag ts"

fun replace_first_element :: "'e \<Rightarrow> 'e token list \<Rightarrow> 'e token list" where
  "replace_first_element e [] = [TElement e]"
| "replace_first_element e (TElement old # ts) = TElement e # ts"
| "replace_first_element e (t # ts) = t # replace_first_element e ts"

definition SetRoot :: "element \<Rightarrow> string \<Rightarrow> element \<Rightarrow> element" where
  "SetRoot d parent_tag e =
     with_children d (replace_first_element e (unbind_first_child parent_tag (Child d)))"

section \<open>The reply decoder\<close>

record RPCReply =
  Errors :: "RPCError list"
  Data :: element
  Ok :: bool
  MessageID :: string

definition safeText :: "element option \<Rightarrow> string" where
  "safeText el = (case el of None \<Rightarrow> [] | Some e \<Rightarrow> Text e)"

text \<open>The RPCError built from one \<open>rpc-error\<close> element (the body of the loop).\<close>

definition decode_error :: "element \<Rightarrow> element \<Rightarrow> RPCError" where
  "decode_error doc rpcErr =
     \<lparr> Type = safeText (FindElement doc (path_child ''error-type'') rpcErr),
       Tag_of = safeText (FindElement doc (path_child ''error-tag'') rpcErr),
       Severity = safeText (FindElement doc (path_child ''error-severity'') rpcErr),
       Path = safeText (FindElement doc (path_child ''error-path'') rpcErr),
       Message = safeText (FindElement doc (path_child ''error-message'') rpcErr) \<rparr>"

text \<open>
  \<open>reply.Data.FindElement("rpc-reply").ChildElements()[0]\<close>: the method call on a nil
  element dereferences nil, the index into an empty slice is out of range.
\<close>

definition find_root :: "element \<Rightarrow> element option outcome" where
  "find_root d =
     (case FindElement d (path_child ''rpc-reply'') d of
        None \<Rightarrow> Panic NilPointerDereference
      | Some w \<Rightarrow>
          (case map Some (ChildElements w) of
             [] \<Rightarrow> Panic IndexOutOfRange
           | root # _ \<Rightarrow> Return root))"

text \<open>The loop over \<open>reply.Errors\<close>: the first error that fails the call.\<close>

fun classify :: "RPCError list \<Rightarrow> bool \<Rightarrow> RPCError option" where
  "classify [] ErrOnWarning = None"
| "classify (rpcErr # rest) ErrOnWarning =
     (if Severity rpcErr = ''error'' \<or> ErrOnWarning then Some rpcErr
      else classify rest ErrOnWarning)"

text \<open>
  newRPCReply. The markup reader \<open>ReadFromBytes\<close> of the library is a parameter: it
  gives an error or the top-level tokens of the document read. The result is the pair
  \<open>(*RPCReply, error)\<close> of the source, nil being \<open>None\<close>.
\<close>

definition newRPCReply ::
  "(string \<Rightarrow> error + element token list) \<Rightarrow> string \<Rightarrow> bool \<Rightarrow> string
     \<Rightarrow> (RPCReply option \<times> error option) outcome" where
  "newRPCReply ReadFromBytes rawXML ErrOnWarning messageID =
     (case ReadFromBytes rawXML of
        Inl err \<Rightarrow> Return (None, Some err)
      | Inr toks \<Rightarrow>
          let d = with_children NewDocument toks;
              ok = (FindElement d (path_any ''ok'') d \<noteq> None)
          in case find_root d of
               Panic p \<Rightarrow> Panic p
             | Return None \<Rightarrow> Return (None, Some (Errorf ''can't find root''))
             | Return (Some root) \<Rightarrow>
                 let d' = SetRoot d ''rpc-reply'' root;
                     errs = foldl (\<lambda>acc rpcErr. acc @ [decode_error d' rpcErr]) []
                              (FindElements d' (path_any ''rpc-error'') d');
                     reply = \<lparr> Errors = errs, Data = d', Ok = ok, MessageID = messageID \<rparr>
                 in if errs \<noteq> [] then
                      (case classify errs ErrOnWarning of
                         Some rpcErr \<Rightarrow> Return (Some reply, Some (RPCErr rpcErr))
                       | None \<Rightarrow> Return (Some reply, None))
                    else Return (Some reply, None))"

section \<open>Elements of a document, for the statements\<close>

text \<open>
  Every element at or below an element, parents before children (document order). The
  decoder does not call this function: the theorems use it to say "anywhere in the
  document" without the path evaluator.
\<close>

function all_elements :: "element \<Rightarrow> element list" where
  "all_elements e = e # concat (map all_elements (ChildElements e))"
  by pat_completeness auto
termination
  by (relation "measure size") (auto simp: size_child)

declare all_elements.simps [simp del]

text \<open>A markup reader that yields the given top-level tokens for every input.\<close>

definition reads :: "element token list \<Rightarrow> string \<Rightarrow> error + element token list" where
  "reads toks rawXML = Inr toks"

text \<open>A markup reader that rejects every input.\<close>

definition rejects :: "string \<Rightarrow> string \<Rightarrow> error + element token list" where
  "rejects msg rawXML = Inl (ReadError msg)"

text \<open>An element with no namespace prefix and no attribute.\<close>

definition el :: "string \<Rightarrow> element token list \<Rightarrow> element token" where
  "el tag children = TElement (Element [] tag [] children)"

section \<open>Facts about the decoder\<close>

lemma foldl_snoc_map: "foldl (\<lambda>acc x. acc @ [f x]) acc0 xs = acc0 @ map f xs"
  by (induction xs arbitrary: acc0) auto

lemma find_root_not_nil: "find_root d \<noteq> Return None"
  by (auto simp: find_root_def split: option.splits list.splits)

lemma find_root_cases:
  "find_root d = r \<Longrightarrow>
     (r = Panic NilPointerDereference \<and> FindElement d (path_child ''rpc-reply'') d = None) \<or>
     (\<exists>w. r = Panic IndexOutOfRange \<and> FindElement d (path_child ''rpc-reply'') d = Some w \<and> ChildElements w = []) \<or>
     (\<exists>w root rest. r = Return (Some root) \<and> FindElement d (path_child ''rpc-reply'') d = Some w \<and> ChildElements w = root # rest)"
  by (auto simp: find_root_def split: option.splits list.splits)

definition decoded :: "element token list \<Rightarrow> element \<Rightarrow> string \<Rightarrow> RPCReply" where
  "decoded toks root mid =
     (let d = with_children NewDocument toks; d' = SetRoot d ''rpc-reply'' root in
      \<lparr> Errors = map (decode_error d') (FindElements d' (path_any ''rpc-error'') d'),
        Data = d',
        Ok = (FindElement d (path_any ''ok'') d \<noteq> None),
        MessageID = mid \<rparr>)"

lemma classify_Nil_iff: "classify [] s = None" by simp

lemma newRPCReply_root:
  assumes "rd raw = Inr toks" "find_root (with_children NewDocument toks) = Return (Some root)"
  shows "newRPCReply rd raw strict mid =
     Return (Some (decoded toks root mid),
             map_option RPCErr (classify (Errors (decoded toks root mid)) strict))"
  using assms
  by (auto simp: newRPCReply_def decoded_def Let_def foldl_snoc_map split: option.splits)

lemma newRPCReply_panic:
  assumes "rd raw = Inr toks" "find_root (with_children NewDocument toks) = Panic p"
  shows "newRPCReply rd raw strict mid = Panic p"
  using assms by (simp add: newRPCReply_def Let_def)

lemma newRPCReply_read_error:
  assumes "rd raw = Inl err"
  shows "newRPCReply rd raw strict mid = Return (None, Some err)"
  using assms by (simp add: newRPCReply_def)

lemma newRPCReply_Return:
  assumes "rd raw = Inr toks" "newRPCReply rd raw strict mid = Return (r, err)"
  shows "\<exists>root. find_root (with_children NewDocument toks) = Return (Some root) \<and>
           r = Some (decoded toks root mid) \<and>
           err = map_option RPCErr (classify (Errors (decoded toks root mid)) strict)"
proof (cases "find_root (with_children NewDocument toks)")
  case (Panic p)
  with assms show ?thesis by (simp add: newRPCReply_panic)
next
  case (Return x)
  with find_root_not_nil [of "with_children NewDocument toks"] obtain root where "x = Some root"
    by (cases x) auto
  with Return assms show ?thesis by (simp add: newRPCReply_root)
qed


lemma set_bfs: "set (bfs q) = (\<Union>e\<in>set q. set (all_elements e))"
proof (induction q rule: bfs.induct)
  case 1
  show ?case by simp
next
  case (2 e q)
  have "set (all_elements e) = insert e (\<Union>c\<in>set (ChildElements e). set (all_elements c))"
    by (subst all_elements.simps) auto
  with 2 show ?case by auto
qed

lemma count_bfs:
  "length (filter P (bfs q)) = sum_list (map (\<lambda>e. length (filter P (all_elements e))) q)"
proof (induction q rule: bfs.induct)
  case 1
  show ?case by simp
next
  case (2 e q)
  have "length (filter P (all_elements e)) =
          (if P e then 1 else 0) +
          sum_list (map (\<lambda>c. length (filter P (all_elements c))) (ChildElements e))"
    by (subst all_elements.simps) (simp add: filter_concat length_concat comp_def)
  with 2 show ?case by simp
qed

lemma all_elements_children:
  "set (all_elements e) = insert e (\<Union>c\<in>set (ChildElements e). set (all_elements c))"
  by (subst all_elements.simps) auto

lemma FindElements_any:
  "set (FindElements d (path_any tag) d) =
     {c. \<exists>p\<in>set (all_elements d). c \<in> set (ChildElements p) \<and> Tag c = tag}"
  by (auto simp: FindElements_def path_any_def set_bfs simp del: bfs.simps)

lemma self_all_elements: "e \<in> set (all_elements e)"
  by (simp add: all_elements_children [of e])

lemma child_all_elements:
  "x \<in> set (ChildElements e) \<Longrightarrow> c \<in> set (all_elements x) \<Longrightarrow> c \<in> set (all_elements e)"
  by (auto simp: all_elements_children [of e])

lemma below_iff:
  "(\<exists>p\<in>set (all_elements d). c \<in> set (ChildElements p)) \<longleftrightarrow>
     c \<in> (\<Union>x\<in>set (ChildElements d). set (all_elements x))"
proof (induction d rule: all_elements.induct)
  case (1 e)
  show ?case
  proof
    assume "\<exists>p\<in>set (all_elements e). c \<in> set (ChildElements p)"
    then obtain p where p: "p \<in> set (all_elements e)" "c \<in> set (ChildElements p)" by blast
    from p(1) consider "p = e" | x where "x \<in> set (ChildElements e)" "p \<in> set (all_elements x)"
      by (auto simp: all_elements_children [of e])
    then show "c \<in> (\<Union>x\<in>set (ChildElements e). set (all_elements x))"
    proof cases
      case 1
      with p(2) self_all_elements [of c] show ?thesis by blast
    next
      case 2
      with p(2) 1 [of x] have "c \<in> (\<Union>y\<in>set (ChildElements x). set (all_elements y))" by blast
      then have "c \<in> set (all_elements x)" using child_all_elements by blast
      with 2 show ?thesis by blast
    qed
  next
    assume "c \<in> (\<Union>x\<in>set (ChildElements e). set (all_elements x))"
    then obtain x where x: "x \<in> set (ChildElements e)" "c \<in> set (all_elements x)" by blast
    from x(2) consider "c = x" | "c \<in> (\<Union>y\<in>set (ChildElements x). set (all_elements y))"
      by (auto simp: all_elements_children [of x])
    then show "\<exists>p\<in>set (all_elements e). c \<in> set (ChildElements p)"
    proof cases
      case 1
      with x(1) self_all_elements [of e] show ?thesis by blast
    next
      case 2
      with 1 [of x] x(1) obtain p where "p \<in> set (all_elements x)" "c \<in> set (ChildElements p)"
        by blast
      with x(1) child_all_elements [of x e p] show ?thesis by blast
    qed
  qed
qed

lemma set_FindElements_any:
  "set (FindElements d (path_any tag) d) =
     {c \<in> (\<Union>x\<in>set (ChildElements d). set (all_elements x)). Tag c = tag}"
  using below_iff [of d] by (auto simp: FindElements_any)

lemma FindElement_None_iff: "FindElement d p e = None \<longleftrightarrow> FindElements d p e = []"
  by (simp add: FindElement_def split: list.splits)

section \<open>The claims\<close>

subsection \<open>The root of the reply\<close>

text \<open>
  C1. A reply that is read as well-formed markup whose \<open>rpc-reply\<close> wrapper has no
  child element should end in the structural error. Evaluated on the document
  \<open><rpc-reply/>\<close>, newRPCReply does not return at all: the index \<open>[0]\<close> into the empty
  list of child elements is out of range, before the nil check that guards the error
  return.
\<close>

theorem childless_reply_panics:
  "newRPCReply (reads [el ''rpc-reply'' []]) ''<rpc-reply/>'' False ''m1'' = Panic IndexOutOfRange"
  by code_simp

text \<open>
  C10. The error return "can't find root" of newRPCReply is unreachable. Once the reply
  has been read, the root lookup never yields nil, so newRPCReply never returns a nil
  reply; a document with no \<open>rpc-reply\<close> element at the top level ends in a nil
  dereference, and one whose \<open>rpc-reply\<close> wrapper has no child element ends in an
  index out of range.
\<close>

theorem cant_find_root_unreachable:
  assumes "ReadFromBytes rawXML = Inr toks"
  shows "find_root (with_children NewDocument toks) \<noteq> Return None
    \<and> (\<forall>err. newRPCReply ReadFromBytes rawXML ErrOnWarning messageID \<noteq> Return (None, err))
    \<and> (FindElement (with_children NewDocument toks) (path_child ''rpc-reply'')
          (with_children NewDocument toks) = None
        \<longrightarrow> newRPCReply ReadFromBytes rawXML ErrOnWarning messageID = Panic NilPointerDereference)
    \<and> (\<forall>w. FindElement (with_children NewDocument toks) (path_child ''rpc-reply'')
          (with_children NewDocument toks) = Some w \<and> ChildElements w = []
        \<longrightarrow> newRPCReply ReadFromBytes rawXML ErrOnWarning messageID = Panic IndexOutOfRange)"
proof (intro conjI allI impI)
  show "find_root (with_children NewDocument toks) \<noteq> Return None"
    by (rule find_root_not_nil)
next
  fix err
  show "newRPCReply ReadFromBytes rawXML ErrOnWarning messageID \<noteq> Return (None, err)"
    using newRPCReply_Return [of ReadFromBytes rawXML toks ErrOnWarning messageID None err] assms by fastforce
next
  assume "FindElement (with_children NewDocument toks) (path_child ''rpc-reply'')
          (with_children NewDocument toks) = None"
  then have "find_root (with_children NewDocument toks) = Panic NilPointerDereference"
    by (simp add: find_root_def)
  then show "newRPCReply ReadFromBytes rawXML ErrOnWarning messageID = Panic NilPointerDereference"
    using newRPCReply_panic [of ReadFromBytes rawXML toks] assms by blast
next
  fix w
  assume "FindElement (with_children NewDocument toks) (path_child ''rpc-reply'')
          (with_children NewDocument toks) = Some w \<and> ChildElements w = []"
  then have "find_root (with_children NewDocument toks) = Panic IndexOutOfRange"
    by (simp add: find_root_def)
  then show "newRPCReply ReadFromBytes rawXML ErrOnWarning messageID = Panic IndexOutOfRange"
    using newRPCReply_panic [of ReadFromBytes rawXML toks] assms by blast
qed

theorem cant_find_root_unreachable_witness:
  "reads [el ''hello'' []] ''<hello/>'' = Inr [el ''hello'' []]
   \<and> newRPCReply (reads [el ''hello'' []]) ''<hello/>'' True ''m1'' = Panic NilPointerDereference
   \<and> find_root (with_children NewDocument [el ''hello'' []]) \<noteq> Return None"
proof -
  have r: "reads [el ''hello'' []] ''<hello/>'' = Inr [el ''hello'' []]"
    by (simp add: reads_def)
  have n: "FindElement (with_children NewDocument [el ''hello'' []]) (path_child ''rpc-reply'')
          (with_children NewDocument [el ''hello'' []]) = None"
    by code_simp
  from cant_find_root_unreachable [of "reads [el ''hello'' []]" "''<hello/>''" "[el ''hello'' []]" True "''m1''"] n r
  show ?thesis by blast
qed

text \<open>All the elements of a document: those below the document's own element.\<close>

definition document_elements :: "element \<Rightarrow> element list" where
  "document_elements d = concat (map all_elements (ChildElements d))"

lemma newRPCReply_Some:
  assumes "newRPCReply rd raw strict mid = Return (Some reply, err)"
  shows "\<exists>toks root. rd raw = Inr toks \<and>
           find_root (with_children NewDocument toks) = Return (Some root) \<and>
           reply = decoded toks root mid \<and>
           err = map_option RPCErr (classify (Errors reply) strict)"
proof (cases "rd raw")
  case (Inl e)
  with assms show ?thesis by (simp add: newRPCReply_read_error)
next
  case (Inr toks)
  with newRPCReply_Return [of rd raw toks strict mid "Some reply" err] assms show ?thesis
    by auto
qed

subsection \<open>Classification of the decoded errors\<close>





text \<open>A reported error with a severity and a message, the other fields empty.\<close>

definition rpc_error :: "string \<Rightarrow> string \<Rightarrow> RPCError" where
  "rpc_error sev msg = \<lparr> Type = [], Tag_of = [], Severity = sev, Path = [], Message = msg \<rparr>"


text \<open>
  C3. Once the reply has been read, whenever newRPCReply returns a failure value, that
  value is the error the classification chose and the reply beside it is not nil: it
  holds the re-rooted document, the whole list of decoded errors (the entries after
  the chosen one too), the success flag and the identifier.
\<close>

theorem failure_returns_reply:
  assumes "ReadFromBytes rawXML = Inr toks"
    and "newRPCReply ReadFromBytes rawXML ErrOnWarning messageID = Return (r, Some err)"
  shows "\<exists>reply rpcErr root.
           r = Some reply \<and> err = RPCErr rpcErr \<and>
           classify (Errors reply) ErrOnWarning = Some rpcErr \<and>
           find_root (with_children NewDocument toks) = Return (Some root) \<and>
           Data reply = SetRoot (with_children NewDocument toks) ''rpc-reply'' root \<and>
           Errors reply = map (decode_error (Data reply))
                            (FindElements (Data reply) (path_any ''rpc-error'') (Data reply)) \<and>
           Ok reply = (FindElement (with_children NewDocument toks) (path_any ''ok'')
                         (with_children NewDocument toks) \<noteq> None) \<and>
           MessageID reply = messageID"
proof -
  from newRPCReply_Return [of ReadFromBytes rawXML toks ErrOnWarning messageID r "Some err"] assms
  obtain root where root: "find_root (with_children NewDocument toks) = Return (Some root)"
    "r = Some (decoded toks root messageID)"
    "Some err = map_option RPCErr (classify (Errors (decoded toks root messageID)) ErrOnWarning)"
    by blast
  from root(3) obtain rpcErr where
    "classify (Errors (decoded toks root messageID)) ErrOnWarning = Some rpcErr" "err = RPCErr rpcErr"
    by (cases "classify (Errors (decoded toks root messageID)) ErrOnWarning") auto
  with root(1,2) show ?thesis
    by (simp add: decoded_def Let_def)
qed

text \<open>A reply whose payload holds an error followed by a warning.\<close>

definition two_errors_in_data :: "element token list" where
  "two_errors_in_data =
     [el ''rpc-reply''
        [el ''data''
           [el ''rpc-error''
              [el ''error-severity'' [TCharData ''error''],
               el ''error-message'' [TCharData ''locked'']],
            el ''rpc-error''
              [el ''error-severity'' [TCharData ''warning''],
               el ''error-message'' [TCharData ''slow'']]]]]"

theorem failure_returns_reply_witness:
  "reads two_errors_in_data [] = Inr two_errors_in_data
   \<and> (case newRPCReply (reads two_errors_in_data) [] False ''m1'' of
        Return (Some reply, Some (RPCErr rpcErr)) \<Rightarrow>
          Errors reply = [rpc_error ''error'' ''locked'', rpc_error ''warning'' ''slow''] \<and>
          rpcErr = rpc_error ''error'' ''locked'' \<and> MessageID reply = ''m1''
      | _ \<Rightarrow> False)"
proof -
  have r: "reads two_errors_in_data [] = Inr two_errors_in_data"
    by (simp add: reads_def)
  have n: "newRPCReply (reads two_errors_in_data) [] False ''m1'' =
     Return (Some \<lparr> Errors = [rpc_error ''error'' ''locked'', rpc_error ''warning'' ''slow''],
                     Data = with_children NewDocument
                       [el ''data''
                          [el ''rpc-error''
                             [el ''error-severity'' [TCharData ''error''],
                              el ''error-message'' [TCharData ''locked'']],
                           el ''rpc-error''
                             [el ''error-severity'' [TCharData ''warning''],
                              el ''error-message'' [TCharData ''slow'']]]],
                     Ok = False, MessageID = ''m1'' \<rparr>,
             Some (RPCErr (rpc_error ''error'' ''locked'')))"
    by code_simp
  from failure_returns_reply [of "reads two_errors_in_data" "[]" two_errors_in_data False "''m1''", OF r n]
  obtain reply rpcErr where
    "Some \<lparr> Errors = [rpc_error ''error'' ''locked'', rpc_error ''warning'' ''slow''],
                     Data = with_children NewDocument
                       [el ''data''
                          [el ''rpc-error''
                             [el ''error-severity'' [TCharData ''error''],
                              el ''error-message'' [TCharData ''locked'']],
                           el ''rpc-error''
                             [el ''error-severity'' [TCharData ''warning''],
                              el ''error-message'' [TCharData ''slow'']]]],
                     Ok = False, MessageID = ''m1'' \<rparr> = Some reply"
    "RPCErr (rpc_error ''error'' ''locked'') = RPCErr rpcErr" "MessageID reply = ''m1''"
    by blast
  with r n show ?thesis by auto
qed

subsection \<open>The identifier and the success flag\<close>

text \<open>
  C5. Whenever newRPCReply returns a reply, with or without a failure value, the
  reply's MessageID is the identifier that was passed in.
\<close>

theorem reply_keeps_message_id:
  assumes "newRPCReply ReadFromBytes rawXML ErrOnWarning messageID = Return (Some reply, err)"
  shows "MessageID reply = messageID"
  using newRPCReply_Some [OF assms] by (auto simp: decoded_def Let_def)

theorem reply_keeps_message_id_witness:
  "newRPCReply (reads two_errors_in_data) [] True ''m-42'' =
     Return (Some (decoded two_errors_in_data
                     (Element [] ''data'' []
                        [el ''rpc-error''
                           [el ''error-severity'' [TCharData ''error''],
                            el ''error-message'' [TCharData ''locked'']],
                         el ''rpc-error''
                           [el ''error-severity'' [TCharData ''warning''],
                            el ''error-message'' [TCharData ''slow'']]]) ''m-42''),
             Some (RPCErr (rpc_error ''error'' ''locked'')))
   \<and> MessageID (decoded two_errors_in_data
                     (Element [] ''data'' []
                        [el ''rpc-error''
                           [el ''error-severity'' [TCharData ''error''],
                            el ''error-message'' [TCharData ''locked'']],
                         el ''rpc-error''
                           [el ''error-severity'' [TCharData ''warning''],
                            el ''error-message'' [TCharData ''slow'']]]) ''m-42'') = ''m-42''"
proof -
  have n: "newRPCReply (reads two_errors_in_data) [] True ''m-42'' =
     Return (Some (decoded two_errors_in_data
                     (Element [] ''data'' []
                        [el ''rpc-error''
                           [el ''error-severity'' [TCharData ''error''],
                            el ''error-message'' [TCharData ''locked'']],
                         el ''rpc-error''
                           [el ''error-severity'' [TCharData ''warning''],
                            el ''error-message'' [TCharData ''slow'']]]) ''m-42''),
             Some (RPCErr (rpc_error ''error'' ''locked'')))"
    by code_simp
  from reply_keeps_message_id [OF n] n show ?thesis by simp
qed

lemma FindElement_any_iff:
  "FindElement d (path_any tag) d \<noteq> None \<longleftrightarrow> (\<exists>e\<in>set (document_elements d). Tag e = tag)"
proof -
  have "FindElement d (path_any tag) d \<noteq> None \<longleftrightarrow> set (FindElements d (path_any tag) d) \<noteq> {}"
    by (simp add: FindElement_None_iff)
  also have "\<dots> \<longleftrightarrow> (\<exists>e\<in>set (document_elements d). Tag e = tag)"
    by (auto simp: set_FindElements_any document_elements_def)
  finally show ?thesis .
qed

text \<open>
  C7. For every reply that is read and decoded, the success flag of the reply is true
  if and only if some element of the document that was read, at any depth and with
  any namespace prefix, has the tag \<open>ok\<close>.
\<close>

theorem ok_flag_iff_ok_element:
  assumes "ReadFromBytes rawXML = Inr toks"
    and "newRPCReply ReadFromBytes rawXML ErrOnWarning messageID = Return (Some reply, err)"
  shows "Ok reply \<longleftrightarrow>
           (\<exists>e\<in>set (document_elements (with_children NewDocument toks)). Tag e = ''ok'')"
proof -
  from newRPCReply_Some [OF assms(2)] assms(1) obtain root where
    "reply = decoded toks root messageID" by auto
  then have "Ok reply \<longleftrightarrow> FindElement (with_children NewDocument toks) (path_any ''ok'')
                         (with_children NewDocument toks) \<noteq> None"
    by (simp add: decoded_def Let_def)
  with FindElement_any_iff [of "with_children NewDocument toks" "''ok''"] show ?thesis
    by blast
qed

text \<open>A reply that acknowledges, and a reply that carries data.\<close>

definition ok_reply :: "element token list" where
  "ok_reply = [el ''rpc-reply'' [el ''ok'' []]]"

definition data_reply :: "element token list" where
  "data_reply = [el ''rpc-reply'' [el ''data'' [el ''x'' [TCharData ''1'']]]]"

theorem ok_flag_iff_ok_element_witness:
  "reads ok_reply [] = Inr ok_reply
   \<and> newRPCReply (reads ok_reply) [] False ''m1'' =
       Return (Some \<lparr> Errors = [], Data = with_children NewDocument [el ''ok'' []],
                      Ok = True, MessageID = ''m1'' \<rparr>, None)
   \<and> (\<exists>e\<in>set (document_elements (with_children NewDocument ok_reply)). Tag e = ''ok'')
   \<and> reads data_reply [] = Inr data_reply
   \<and> newRPCReply (reads data_reply) [] False ''m1'' =
       Return (Some \<lparr> Errors = [],
                      Data = with_children NewDocument [el ''data'' [el ''x'' [TCharData ''1'']]],
                      Ok = False, MessageID = ''m1'' \<rparr>, None)
   \<and> \<not> (\<exists>e\<in>set (document_elements (with_children NewDocument data_reply)). Tag e = ''ok'')"
proof -
  have r1: "reads ok_reply [] = Inr ok_reply" and r2: "reads data_reply [] = Inr data_reply"
    by (simp_all add: reads_def)
  have n1: "newRPCReply (reads ok_reply) [] False ''m1'' =
       Return (Some \<lparr> Errors = [], Data = with_children NewDocument [el ''ok'' []],
                      Ok = True, MessageID = ''m1'' \<rparr>, None)"
    by code_simp
  have n2: "newRPCReply (reads data_reply) [] False ''m1'' =
       Return (Some \<lparr> Errors = [],
                      Data = with_children NewDocument [el ''data'' [el ''x'' [TCharData ''1'']]],
                      Ok = False, MessageID = ''m1'' \<rparr>, None)"
    by code_simp
  from ok_flag_iff_ok_element [of "reads ok_reply" "[]" ok_reply False "''m1''", OF r1 n1]
    ok_flag_iff_ok_element [of "reads data_reply" "[]" data_reply False "''m1''", OF r2 n2]
    r1 r2 n1 n2
  show ?thesis by simp
qed

subsection \<open>The decoded errors\<close>

lemma sum_list_concat: "sum_list (concat xss) = sum_list (map sum_list xss)"
  for xss :: "nat list list"
  by (induction xss) auto

lemma sum_bfs:
  "sum_list (map f (bfs q)) = sum_list (map (\<lambda>e. sum_list (map f (all_elements e))) q)"
  for f :: "element \<Rightarrow> nat"
proof (induction q rule: bfs.induct)
  case 1
  show ?case by simp
next
  case (2 e q)
  have "sum_list (map f (all_elements e)) =
          f e + sum_list (map (\<lambda>c. sum_list (map f (all_elements c))) (ChildElements e))"
    by (subst all_elements.simps) (simp add: map_concat sum_list_concat comp_def)
  with 2 show ?case by simp
qed

lemma length_filter_sum: "length (filter P xs) = sum_list (map (\<lambda>x. if P x then 1 else 0) xs)"
  by (induction xs) auto

lemma count_children:
  "sum_list (map (\<lambda>p. length (filter P (ChildElements p))) (all_elements e)) =
     length (filter P (document_elements e))"
proof (induction e rule: all_elements.induct)
  case (1 e)
  have "sum_list (map (\<lambda>p. length (filter P (ChildElements p))) (all_elements e)) =
          length (filter P (ChildElements e)) +
          sum_list (map (\<lambda>c. sum_list (map (\<lambda>p. length (filter P (ChildElements p))) (all_elements c)))
                      (ChildElements e))"
    by (subst all_elements.simps) (simp add: map_concat sum_list_concat comp_def)
  also have "\<dots> = length (filter P (ChildElements e)) +
          sum_list (map (\<lambda>c. length (filter P (document_elements c))) (ChildElements e))"
    using 1 by (simp cong: map_cong)
  also have "\<dots> = sum_list (map (\<lambda>c. length (filter P (all_elements c))) (ChildElements e))"
  proof -
    have "\<And>c. length (filter P (all_elements c)) =
            (if P c then 1 else 0) + length (filter P (document_elements c))"
      by (subst all_elements.simps) (simp add: document_elements_def)
    then show ?thesis
      by (simp add: length_filter_sum [of P "ChildElements e"] sum_list_addf)
  qed
  also have "\<dots> = length (filter P (document_elements e))"
    by (simp add: document_elements_def filter_concat length_concat comp_def)
  finally show ?case .
qed

lemma length_FindElements_any:
  "length (FindElements d (path_any tag) d) =
     length (filter (\<lambda>e. Tag e = tag) (document_elements d))"
proof -
  have "length (FindElements d (path_any tag) d) =
          sum_list (map (\<lambda>p. length (filter (\<lambda>e. Tag e = tag) (ChildElements p))) (bfs [d]))"
    by (simp add: FindElements_def path_any_def length_concat comp_def del: bfs.simps)
  also have "\<dots> = length (filter (\<lambda>e. Tag e = tag) (document_elements d))"
    by (simp add: sum_bfs count_children del: bfs.simps)
  finally show ?thesis .
qed

text \<open>
  The text of the first child element with a tag, the empty string when no child
  element has the tag.
\<close>

definition first_child_text :: "string \<Rightarrow> element \<Rightarrow> string" where
  "first_child_text tag e =
     (case filter (\<lambda>c. Tag c = tag) (ChildElements e) of [] \<Rightarrow> [] | c # _ \<Rightarrow> Text c)"

lemma safeText_child:
  "safeText (FindElement d (path_child tag) e) = first_child_text tag e"
  by (simp add: safeText_def FindElement_def FindElements_def path_child_def
      first_child_text_def split: list.splits)

lemma first_child_text_missing:
  "\<forall>c\<in>set (ChildElements e). Tag c \<noteq> tag \<Longrightarrow> first_child_text tag e = []"
  by (auto simp: first_child_text_def filter_empty_conv split: list.splits)

text \<open>
  What holds of the errors of every reply newRPCReply returns. Whenever the root
  lookup succeeds on the document read, newRPCReply returns a reply, whatever the
  error entries hold. The reply's errors are one Reported Error per \<open>rpc-error\<close>
  element of the document the reply holds, \<open>reply.Data\<close>, which is the document after
  \<open>SetRoot\<close>. Each field is the text of the first child element with the field's
  tag, and the empty string when the entry has no such child.
\<close>

lemma errors_of_rerooted_document:
  "(\<forall>toks root. ReadFromBytes rawXML = Inr toks \<and>
        find_root (with_children NewDocument toks) = Return (Some root)
        \<longrightarrow> (\<exists>reply err.
               newRPCReply ReadFromBytes rawXML ErrOnWarning messageID = Return (Some reply, err)))
   \<and> (\<forall>reply err.
        newRPCReply ReadFromBytes rawXML ErrOnWarning messageID = Return (Some reply, err)
        \<longrightarrow> Errors reply = map (decode_error (Data reply))
                             (FindElements (Data reply) (path_any ''rpc-error'') (Data reply))
          \<and> set (FindElements (Data reply) (path_any ''rpc-error'') (Data reply)) =
              {e \<in> set (document_elements (Data reply)). Tag e = ''rpc-error''}
          \<and> length (Errors reply) =
              length (filter (\<lambda>e. Tag e = ''rpc-error'') (document_elements (Data reply))))
   \<and> (\<forall>d rpcErr.
        decode_error d rpcErr =
          \<lparr> Type = first_child_text ''error-type'' rpcErr,
            Tag_of = first_child_text ''error-tag'' rpcErr,
            Severity = first_child_text ''error-severity'' rpcErr,
            Path = first_child_text ''error-path'' rpcErr,
            Message = first_child_text ''error-message'' rpcErr \<rparr>)
   \<and> (\<forall>tag rpcErr. (\<forall>c\<in>set (ChildElements rpcErr). Tag c \<noteq> tag)
        \<longrightarrow> first_child_text tag rpcErr = [])"
proof (intro conjI allI impI)
  fix toks root
  assume "ReadFromBytes rawXML = Inr toks \<and>
        find_root (with_children NewDocument toks) = Return (Some root)"
  with newRPCReply_root [of ReadFromBytes rawXML toks root ErrOnWarning messageID]
  show "\<exists>reply err.
          newRPCReply ReadFromBytes rawXML ErrOnWarning messageID = Return (Some reply, err)"
    by blast
next
  fix reply err
  assume a: "newRPCReply ReadFromBytes rawXML ErrOnWarning messageID = Return (Some reply, err)"
  from newRPCReply_Some [OF a] obtain toks root where "reply = decoded toks root messageID"
    by blast
  then show e: "Errors reply = map (decode_error (Data reply))
                             (FindElements (Data reply) (path_any ''rpc-error'') (Data reply))"
    by (simp add: decoded_def Let_def)
  show "set (FindElements (Data reply) (path_any ''rpc-error'') (Data reply)) =
              {e \<in> set (document_elements (Data reply)). Tag e = ''rpc-error''}"
    by (simp add: set_FindElements_any document_elements_def)
  from e show "length (Errors reply) =
              length (filter (\<lambda>e. Tag e = ''rpc-error'') (document_elements (Data reply)))"
    by (simp add: length_FindElements_any)
next
  fix d rpcErr
  show "decode_error d rpcErr =
          \<lparr> Type = first_child_text ''error-type'' rpcErr,
            Tag_of = first_child_text ''error-tag'' rpcErr,
            Severity = first_child_text ''error-severity'' rpcErr,
            Path = first_child_text ''error-path'' rpcErr,
            Message = first_child_text ''error-message'' rpcErr \<rparr>"
    by (simp add: decode_error_def safeText_child)
next
  fix tag rpcErr
  assume "\<forall>c\<in>set (ChildElements rpcErr). Tag c \<noteq> tag"
  then show "first_child_text tag rpcErr = []"
    by (rule first_child_text_missing)
qed


text \<open>An error entry with a severity and nothing else.\<close>

definition bare_error :: element where
  "bare_error = Element [] ''rpc-error'' [] [el ''error-severity'' [TCharData ''error'']]"

lemma errors_of_rerooted_document_example:
  "reads two_errors_in_data [] = Inr two_errors_in_data
   \<and> (case newRPCReply (reads two_errors_in_data) [] False ''m1'' of
        Return (Some reply, _) \<Rightarrow>
          Errors reply = [rpc_error ''error'' ''locked'', rpc_error ''warning'' ''slow''] \<and>
          length (filter (\<lambda>e. Tag e = ''rpc-error'') (document_elements (Data reply))) = 2
      | _ \<Rightarrow> False)
   \<and> decode_error NewDocument bare_error = rpc_error ''error'' []
   \<and> first_child_text ''error-path'' bare_error = []"
proof -
  let ?d = "with_children NewDocument
              [el ''data''
                 [el ''rpc-error''
                    [el ''error-severity'' [TCharData ''error''],
                     el ''error-message'' [TCharData ''locked'']],
                  el ''rpc-error''
                    [el ''error-severity'' [TCharData ''warning''],
                     el ''error-message'' [TCharData ''slow'']]]]"
  let ?reply = "\<lparr> Errors = [rpc_error ''error'' ''locked'', rpc_error ''warning'' ''slow''],
                   Data = ?d, Ok = False, MessageID = ''m1'' \<rparr>"
  note inst = errors_of_rerooted_document [of "reads two_errors_in_data" "[]" False "''m1''"]
  have r: "reads two_errors_in_data [] = Inr two_errors_in_data"
    by (simp add: reads_def)
  have n: "newRPCReply (reads two_errors_in_data) [] False ''m1'' =
     Return (Some ?reply, Some (RPCErr (rpc_error ''error'' ''locked'')))"
    by code_simp
  from inst n have "length (Errors ?reply) =
      length (filter (\<lambda>e. Tag e = ''rpc-error'') (document_elements (Data ?reply)))"
    by blast
  then have c: "length (filter (\<lambda>e. Tag e = ''rpc-error'') (document_elements ?d)) = 2"
    by simp
  have "\<forall>c\<in>set (ChildElements bare_error). Tag c \<noteq> ''error-path''"
    by (simp add: bare_error_def ChildElements_def el_def)
  with inst have p: "first_child_text ''error-path'' bare_error = []"
    by blast
  have d: "decode_error NewDocument bare_error = rpc_error ''error'' []"
    by code_simp
  from r n c p d show ?thesis by simp
qed

text \<open>
  Two replies with two reported errors side by side under the wrapper, as a device
  reports several errors: two errors, and a warning followed by an error.
\<close>

definition two_sibling_errors :: "element token list" where
  "two_sibling_errors =
     [el ''rpc-reply''
        [el ''rpc-error''
           [el ''error-severity'' [TCharData ''error''],
            el ''error-message'' [TCharData ''locked'']],
         el ''rpc-error''
           [el ''error-severity'' [TCharData ''error''],
            el ''error-message'' [TCharData ''denied'']]]]"

definition warning_then_error :: "element token list" where
  "warning_then_error =
     [el ''rpc-reply''
        [el ''rpc-error''
           [el ''error-severity'' [TCharData ''warning''],
            el ''error-message'' [TCharData ''slow'']],
         el ''rpc-error''
           [el ''error-severity'' [TCharData ''error''],
            el ''error-message'' [TCharData ''denied'']]]]"

text \<open>
  C8. Every \<open>rpc-error\<close> occurrence of a reply should give one Reported Error. The
  decoder looks the errors up with \<open>//rpc-error\<close>, at any depth, and appends one value
  for each, but only after \<open>SetRoot\<close> has put the wrapper's first child element in the
  place of the wrapper, while the \<open>ok\<close> marker is looked up before. Evaluated on two
  \<open>rpc-error\<close> elements side by side, the document read holds two and the reply one.
  When the first is a warning and the second an error, the error is lost and the call
  succeeds.
\<close>

theorem sibling_error_not_decoded:
  "reads warning_then_error [] = Inr warning_then_error
   \<and> length (filter (\<lambda>e. Tag e = ''rpc-error'')
               (document_elements (with_children NewDocument warning_then_error))) = 2
   \<and> newRPCReply (reads warning_then_error) [] False ''m1'' =
       Return (Some \<lparr> Errors = [rpc_error ''warning'' ''slow''],
                      Data = with_children NewDocument
                               [el ''rpc-error''
                                  [el ''error-severity'' [TCharData ''warning''],
                                   el ''error-message'' [TCharData ''slow'']]],
                      Ok = False, MessageID = ''m1'' \<rparr>,
               None)
   \<and> reads two_sibling_errors [] = Inr two_sibling_errors
   \<and> length (filter (\<lambda>e. Tag e = ''rpc-error'')
               (document_elements (with_children NewDocument two_sibling_errors))) = 2
   \<and> newRPCReply (reads two_sibling_errors) [] False ''m1'' =
       Return (Some \<lparr> Errors = [rpc_error ''error'' ''locked''],
                      Data = with_children NewDocument
                               [el ''rpc-error''
                                  [el ''error-severity'' [TCharData ''error''],
                                   el ''error-message'' [TCharData ''locked'']]],
                      Ok = False, MessageID = ''m1'' \<rparr>,
               Some (RPCErr (rpc_error ''error'' ''locked'')))"
proof (intro conjI)
  show "reads warning_then_error [] = Inr warning_then_error"
    by (simp add: reads_def)
  show "length (filter (\<lambda>e. Tag e = ''rpc-error'')
               (document_elements (with_children NewDocument warning_then_error))) = 2"
    by code_simp
  show "newRPCReply (reads warning_then_error) [] False ''m1'' =
       Return (Some \<lparr> Errors = [rpc_error ''warning'' ''slow''],
                      Data = with_children NewDocument
                               [el ''rpc-error''
                                  [el ''error-severity'' [TCharData ''warning''],
                                   el ''error-message'' [TCharData ''slow'']]],
                      Ok = False, MessageID = ''m1'' \<rparr>,
               None)"
    by code_simp
  show "reads two_sibling_errors [] = Inr two_sibling_errors"
    by (simp add: reads_def)
  show "length (filter (\<lambda>e. Tag e = ''rpc-error'')
               (document_elements (with_children NewDocument two_sibling_errors))) = 2"
    by code_simp
  show "newRPCReply (reads two_sibling_errors) [] False ''m1'' =
       Return (Some \<lparr> Errors = [rpc_error ''error'' ''locked''],
                      Data = with_children NewDocument
                               [el ''rpc-error''
                                  [el ''error-severity'' [TCharData ''error''],
                                   el ''error-message'' [TCharData ''locked'']]],
                      Ok = False, MessageID = ''m1'' \<rparr>,
               Some (RPCErr (rpc_error ''error'' ''locked'')))"
    by code_simp
qed

section \<open>The identifier generator\<close>

text \<open>
  \<open>uuid\<close> fills 16 bytes from the random source with \<open>io.ReadFull\<close>, whose error it
  drops, sets the version and variant bits, and prints five groups with \<open>%x\<close>. The
  argument is what the random source delivers: the bytes it yields before it ends or
  fails. A byte subslice printed with \<open>%x\<close> is two lower-case hexadecimal digits a byte.
\<close>

definition hexdigits :: string where
  "hexdigits = ''0123456789abcdef''"

definition hex_byte :: "8 word \<Rightarrow> string" where
  "hex_byte b = [hexdigits ! (unat b div 16), hexdigits ! (unat b mod 16)]"

definition hex :: "8 word list \<Rightarrow> string" where
  "hex bs = concat (map hex_byte bs)"

text \<open>\<open>io.ReadFull(r, b)\<close>: the bytes read overwrite the front of \<open>b\<close>.\<close>

definition ReadFull :: "8 word list \<Rightarrow> 8 word list \<Rightarrow> 8 word list" where
  "ReadFull src b = take (length b) src @ drop (length src) b"

text \<open>The subslice \<open>b[lo:hi]\<close>, for \<open>lo \<le> hi \<le> len(b)\<close>.\<close>

definition subslice :: "nat \<Rightarrow> nat \<Rightarrow> 'a list \<Rightarrow> 'a list" where
  "subslice lo hi b = take (hi - lo) (drop lo b)"

definition uuid :: "8 word list \<Rightarrow> string" where
  "uuid src =
     (let b = replicate 16 0;
          b = ReadFull src b;
          b = b[6 := (b ! 6 AND 0x0f) OR 0x40];
          b = b[8 := (b ! 8 AND 0x3f) OR 0x80]
      in hex (subslice 0 4 b) @ ''-'' @ hex (subslice 4 6 b) @ ''-'' @ hex (subslice 6 8 b) @ ''-''
         @ hex (subslice 8 10 b) @ ''-'' @ hex (subslice 10 16 b))"

lemma all_bytes:
  assumes "\<forall>n \<in> set [0..<256]. P (of_nat n :: 8 word)"
  shows "P w"
proof -
  have "unat w < 256" using unsigned_less [of w, where 'a = nat] by simp
  then have "unat w \<in> set [0..<256]" by simp
  with assms have "P (of_nat (unat w))" by blast
  then show "P w" by simp
qed

lemma version_nibble: "unat ((w AND 0x0f) OR 0x40) div 16 = 4" for w :: "8 word"
  by (rule all_bytes [where P = "\<lambda>w. unat ((w AND 0x0f) OR 0x40) div 16 = 4"]) code_simp

lemma variant_nibble: "unat ((w AND 0x3f) OR 0x80) div 16 \<in> {8, 9, 10, 11}" for w :: "8 word"
  by (rule all_bytes [where P = "\<lambda>w. unat ((w AND 0x3f) OR 0x80) div 16 \<in> {8, 9, 10, 11}"])
    code_simp

lemma length_hex: "length (hex bs) = 2 * length bs"
  by (induction bs) (auto simp: hex_def hex_byte_def)

lemma hexdigit_mem: "n < 16 \<Longrightarrow> hexdigits ! n \<in> set hexdigits"
  by (rule nth_mem) (simp add: hexdigits_def)

lemma hex_byte_digits: "list_all (\<lambda>c. c \<in> set hexdigits) (hex_byte b)"
proof -
  have "unat b < 256" using unsigned_less [of b, where 'a = nat] by simp
  then have "unat b div 16 < 16" by simp
  then show ?thesis by (simp add: hex_byte_def hexdigit_mem)
qed

lemma hex_digits: "list_all (\<lambda>c. c \<in> set hexdigits) (hex bs)"
  by (induction bs) (auto simp: hex_def hex_byte_digits)

lemma length_ReadFull: "length (ReadFull src b) = length b"
  by (auto simp: ReadFull_def)

lemma hd_hex_subslice:
  "lo < hi \<Longrightarrow> lo < length b \<Longrightarrow> hd (hex (subslice lo hi b)) = hexdigits ! (unat (b ! lo) div 16)"
proof -
  assume a: "lo < hi" "lo < length b"
  then obtain k where "hi - lo = Suc k" by (cases "hi - lo") auto
  with a show ?thesis
    by (simp add: subslice_def hex_def hex_byte_def Cons_nth_drop_Suc [symmetric])
qed


lemma take_2_drop: "Suc n < length xs \<Longrightarrow> take 2 (drop n xs) = [xs ! n, xs ! Suc n]"
proof -
  assume a: "Suc n < length xs"
  then have "drop n xs = xs ! n # xs ! Suc n # drop (Suc (Suc n)) xs"
    by (simp add: Cons_nth_drop_Suc)
  then show ?thesis by (simp add: numeral_2_eq_2)
qed

lemma length_subslice: "hi \<le> length b \<Longrightarrow> length (subslice lo hi b) = hi - lo"
  by (simp add: subslice_def)

text \<open>
  C9. For every state of the random source, the identifier is five groups of
  lower-case hexadecimal digits, of 8, 4, 4, 4 and 12 digits, with a hyphen between
  two groups: 36 characters. The third group starts with the version digit 4 and the
  fourth with a variant digit 8, 9, a or b. When the source delivers the 16 bytes
  asked for, the groups print those 128 bits, but for the six bits the version and the
  variant overwrite.
\<close>

theorem uuid_shape:
  "(\<exists>g1 g2 g3 g4 g5.
      uuid src = g1 @ ''-'' @ g2 @ ''-'' @ g3 @ ''-'' @ g4 @ ''-'' @ g5 \<and>
      length g1 = 8 \<and> length g2 = 4 \<and> length g3 = 4 \<and> length g4 = 4 \<and> length g5 = 12 \<and>
      list_all (\<lambda>c. c \<in> set hexdigits) (g1 @ g2 @ g3 @ g4 @ g5) \<and>
      hd g3 = CHR ''4'' \<and> hd g4 \<in> set ''89ab'')
   \<and> length (uuid src) = 36
   \<and> (16 \<le> length src \<longrightarrow>
        uuid src =
          hex (take 4 src) @ ''-'' @ hex [src ! 4, src ! 5] @ ''-''
          @ hex [(src ! 6 AND 0x0f) OR 0x40, src ! 7] @ ''-''
          @ hex [(src ! 8 AND 0x3f) OR 0x80, src ! 9] @ ''-'' @ hex (take 6 (drop 10 src)))"
proof -
  define b0 where "b0 = ReadFull src (replicate 16 0)"
  define b1 where "b1 = b0[6 := (b0 ! 6 AND 0x0f) OR 0x40]"
  define b where "b = b1[8 := (b1 ! 8 AND 0x3f) OR 0x80]"
  have len: "length b0 = 16" "length b1 = 16" "length b = 16"
    by (simp_all add: b_def b1_def b0_def length_ReadFull)
  have u: "uuid src = hex (subslice 0 4 b) @ ''-'' @ hex (subslice 4 6 b) @ ''-''
           @ hex (subslice 6 8 b) @ ''-'' @ hex (subslice 8 10 b) @ ''-'' @ hex (subslice 10 16 b)"
    by (simp add: uuid_def Let_def b_def b1_def b0_def)
  have b6: "b ! 6 = (b0 ! 6 AND 0x0f) OR 0x40"
    using len by (simp add: b_def b1_def)
  have b8: "b ! 8 = (b0 ! 8 AND 0x3f) OR 0x80"
    using len by (simp add: b_def b1_def)
  have "hd (hex (subslice 6 8 b)) = hexdigits ! 4"
    using len by (simp add: hd_hex_subslice b6 version_nibble)
  then have v: "hd (hex (subslice 6 8 b)) = CHR ''4''"
    by (simp add: hexdigits_def)
  have "hd (hex (subslice 8 10 b)) = hexdigits ! (unat ((b0 ! 8 AND 0x3f) OR 0x80) div 16)"
    using len by (simp add: hd_hex_subslice b8)
  with variant_nibble [of "b0 ! 8"] have r: "hd (hex (subslice 8 10 b)) \<in> set ''89ab''"
    by (auto simp: hexdigits_def)
  have lens: "length (hex (subslice 0 4 b)) = 8" "length (hex (subslice 4 6 b)) = 4"
    "length (hex (subslice 6 8 b)) = 4" "length (hex (subslice 8 10 b)) = 4"
    "length (hex (subslice 10 16 b)) = 12"
    using len by (simp_all add: length_hex length_subslice)
  have digits: "list_all (\<lambda>c. c \<in> set hexdigits)
      (hex (subslice 0 4 b) @ hex (subslice 4 6 b) @ hex (subslice 6 8 b)
       @ hex (subslice 8 10 b) @ hex (subslice 10 16 b))"
    by (simp add: hex_digits)
  have shape: "\<exists>g1 g2 g3 g4 g5.
      uuid src = g1 @ ''-'' @ g2 @ ''-'' @ g3 @ ''-'' @ g4 @ ''-'' @ g5 \<and>
      length g1 = 8 \<and> length g2 = 4 \<and> length g3 = 4 \<and> length g4 = 4 \<and> length g5 = 12 \<and>
      list_all (\<lambda>c. c \<in> set hexdigits) (g1 @ g2 @ g3 @ g4 @ g5) \<and>
      hd g3 = CHR ''4'' \<and> hd g4 \<in> set ''89ab''"
    using u lens digits v r by blast
  have total: "length (uuid src) = 36"
    using lens by (simp add: u)
  have full: "uuid src =
          hex (take 4 src) @ ''-'' @ hex [src ! 4, src ! 5] @ ''-''
          @ hex [(src ! 6 AND 0x0f) OR 0x40, src ! 7] @ ''-''
          @ hex [(src ! 8 AND 0x3f) OR 0x80, src ! 9] @ ''-'' @ hex (take 6 (drop 10 src))"
    if s: "16 \<le> length src"
  proof -
    from s have b0: "b0 = take 16 src"
      by (simp add: b0_def ReadFull_def)
    have nth: "\<And>i. i < 16 \<Longrightarrow> b0 ! i = src ! i"
      by (simp add: b0)
    have l0: "length (take 16 src) = 16" using s by simp
    have 1: "subslice 0 4 b = take 4 src"
      using s by (simp add: subslice_def b_def b1_def b0 take_update_cancel)
    have 2: "subslice 4 6 b = [src ! 4, src ! 5]"
      using len nth take_2_drop [of 4 b] by (simp add: subslice_def b_def b1_def)
    have 3: "subslice 6 8 b = [(src ! 6 AND 0x0f) OR 0x40, src ! 7]"
      using len nth take_2_drop [of 6 b] by (simp add: subslice_def b_def b1_def)
    have 4: "subslice 8 10 b = [(src ! 8 AND 0x3f) OR 0x80, src ! 9]"
      using len nth take_2_drop [of 8 b] by (simp add: subslice_def b_def b1_def)
    have 5: "subslice 10 16 b = take 6 (drop 10 src)"
      using s by (simp add: subslice_def b_def b1_def b0 drop_update_cancel drop_take)
    show ?thesis by (simp only: u 1 2 3 4 5)
  qed
  from shape total full show ?thesis by blast
qed


text \<open>Sixteen bytes of the random source.\<close>

definition sample_bytes :: "8 word list" where
  "sample_bytes = [0x9f, 0x3a, 0x00, 0xc4, 0x51, 0xee, 0xf7, 0x08,
                   0x6d, 0x12, 0xab, 0x40, 0x77, 0x0b, 0xd9, 0xff]"

theorem uuid_shape_witness:
  "16 \<le> length sample_bytes
   \<and> uuid sample_bytes = ''9f3a00c4-51ee-4708-ad12-ab40770bd9ff''
   \<and> length (uuid sample_bytes) = 36"
proof -
  have l: "16 \<le> length sample_bytes"
    by (simp add: sample_bytes_def)
  with uuid_shape [of sample_bytes] have "uuid sample_bytes =
          hex (take 4 sample_bytes) @ ''-'' @ hex [sample_bytes ! 4, sample_bytes ! 5] @ ''-''
          @ hex [(sample_bytes ! 6 AND 0x0f) OR 0x40, sample_bytes ! 7] @ ''-''
          @ hex [(sample_bytes ! 8 AND 0x3f) OR 0x80, sample_bytes ! 9] @ ''-''
          @ hex (take 6 (drop 10 sample_bytes))"
    by blast
  also have "\<dots> = ''9f3a00c4-51ee-4708-ad12-ab40770bd9ff''"
    by code_simp
  finally have u: "uuid sample_bytes = ''9f3a00c4-51ee-4708-ad12-ab40770bd9ff''" .
  from uuid_shape [of sample_bytes] have "length (uuid sample_bytes) = 36" by blast
  with l u show ?thesis by blast
qed

section \<open>The request envelope\<close>

subsection \<open>Escaping of attribute values\<close>

text \<open>
  The encoder of \<open>encoding/xml\<close> writes an attribute value through \<open>EscapeString\<close>,
  which decodes the value rune by rune (\<open>utf8.DecodeRuneInString\<close>). Both are modelled
  from the Go library. A rune and a width are natural numbers; the masks and shifts of
  the decoder are written with \<open>mod\<close> and multiplication.
\<close>

definition RuneError :: nat where
  "RuneError = 0xFFFD"

fun DecodeRune :: "string \<Rightarrow> nat \<times> nat" where
  "DecodeRune [] = (RuneError, 0)"
| "DecodeRune (c0 # rest) =
     (let p0 = (of_char c0 :: nat) in
      if p0 < 0x80 then (p0, 1)
      else if p0 < 0xC2 \<or> 0xF4 < p0 then (RuneError, 1)
      else
        let sz = (if p0 < 0xE0 then 2 else if p0 < 0xF0 then 3 else 4 :: nat);
            lo = (if p0 = 0xE0 then 0xA0 else if p0 = 0xF0 then 0x90 else 0x80 :: nat);
            hi = (if p0 = 0xED then 0x9F else if p0 = 0xF4 then 0x8F else 0xBF :: nat)
        in
        if length (c0 # rest) < sz then (RuneError, 1)
        else
          let b1 = (of_char (rest ! 0) :: nat) in
          if b1 < lo \<or> hi < b1 then (RuneError, 1)
          else if sz \<le> 2 then ((p0 mod 32) * 64 + b1 mod 64, 2)
          else
            let b2 = (of_char (rest ! 1) :: nat) in
            if b2 < 0x80 \<or> 0xBF < b2 then (RuneError, 1)
            else if sz \<le> 3 then ((p0 mod 16) * 4096 + (b1 mod 64) * 64 + b2 mod 64, 3)
            else
              let b3 = (of_char (rest ! 2) :: nat) in
              if b3 < 0x80 \<or> 0xBF < b3 then (RuneError, 1)
              else ((p0 mod 8) * 262144 + (b1 mod 64) * 4096 + (b2 mod 64) * 64 + b3 mod 64, 4))"

definition isInCharacterRange :: "nat \<Rightarrow> bool" where
  "isInCharacterRange r \<longleftrightarrow>
     r = 0x09 \<or> r = 0x0A \<or> r = 0x0D \<or>
     (0x20 \<le> r \<and> r \<le> 0xD7FF) \<or>
     (0xE000 \<le> r \<and> r \<le> 0xFFFD) \<or>
     (0x10000 \<le> r \<and> r \<le> 0x10FFFF)"

text \<open>The replacement character U+FFFD in UTF-8.\<close>

definition escFFFD :: string where
  "escFFFD = [char_of (0xEF :: nat), char_of (0xBF :: nat), char_of (0xBD :: nat)]"

text \<open>
  What one step of the loop of \<open>EscapeString\<close> writes for the rune \<open>r\<close> decoded from the
  bytes \<open>src\<close>: an escape, or the bytes as they are.
\<close>

definition escape_rune :: "nat \<Rightarrow> nat \<Rightarrow> string \<Rightarrow> string" where
  "escape_rune r width src =
     (if r = 0x22 then ''&#34;''
      else if r = 0x27 then ''&#39;''
      else if r = 0x26 then ''&amp;''
      else if r = 0x3C then ''&lt;''
      else if r = 0x3E then ''&gt;''
      else if r = 0x09 then ''&#x9;''
      else if r = 0x0A then ''&#xA;''
      else if r = 0x0D then ''&#xD;''
      else if \<not> isInCharacterRange r \<or> (r = 0xFFFD \<and> width = 1) then escFFFD
      else src)"

lemma DecodeRune_width: "DecodeRune (c # cs) = (r, width) \<Longrightarrow> 1 \<le> width"
  by (auto simp: Let_def split: if_splits)

function EscapeString :: "string \<Rightarrow> string" where
  "EscapeString [] = []"
| "EscapeString (c # cs) =
     (case DecodeRune (c # cs) of
        (r, width) \<Rightarrow>
          escape_rune r width (take width (c # cs)) @ EscapeString (drop width (c # cs)))"
  by pat_completeness auto
termination
  apply (relation "measure length")
   apply simp
  subgoal for c cs r width
    using DecodeRune_width [of c cs r width] by auto
  done

lemma DecodeRune_ascii: "(of_char c :: nat) < 0x80 \<Longrightarrow> DecodeRune (c # cs) = (of_char c, 1)"
  by simp

text \<open>
  A printable ASCII character other than the five that markup escapes: the double
  quote, the ampersand, the apostrophe and the two angle brackets.
\<close>

definition plain_char :: "char \<Rightarrow> bool" where
  "plain_char c \<longleftrightarrow>
     0x20 \<le> (of_char c :: nat) \<and> (of_char c :: nat) < 0x80 \<and>
     (of_char c :: nat) \<notin> {0x22, 0x26, 0x27, 0x3C, 0x3E}"

lemma escape_rune_plain: "plain_char c \<Longrightarrow> escape_rune (of_char c) width [c] = [c]"
  by (auto simp: plain_char_def escape_rune_def isInCharacterRange_def)

lemma EscapeString_plain: "list_all plain_char s \<Longrightarrow> EscapeString s = s"
proof (induction s)
  case Nil
  show ?case by simp
next
  case (Cons c cs)
  then have p: "plain_char c" and "EscapeString cs = cs" by simp_all
  moreover from p have "DecodeRune (c # cs) = (of_char c, 1)"
    by (intro DecodeRune_ascii) (simp add: plain_char_def)
  ultimately show ?case by (simp add: escape_rune_plain del: DecodeRune.simps)
qed

subsection \<open>Methods and messages\<close>

text \<open>
  An RPCMethod renders itself to markup with \<open>MarshalMethod\<close>; the source has one
  implementation, RawMethod, a string. The builders format their arguments into fixed
  templates with \<open>fmt.Sprintf\<close> and \<open>%s\<close>.
\<close>

datatype RPCMethod = RawMethod string

fun MarshalMethod :: "RPCMethod \<Rightarrow> string" where
  "MarshalMethod (RawMethod r) = r"

definition MethodLock :: "string \<Rightarrow> RPCMethod" where
  "MethodLock target = RawMethod (''<lock><target><'' @ target @ ''/></target></lock>'')"

definition MethodUnlock :: "string \<Rightarrow> RPCMethod" where
  "MethodUnlock target = RawMethod (''<unlock><target><'' @ target @ ''/></target></unlock>'')"

definition MethodGetConfig :: "string \<Rightarrow> RPCMethod" where
  "MethodGetConfig source =
     RawMethod (''<get-config><source><'' @ source @ ''/></source></get-config>'')"

definition MethodGet :: "string \<Rightarrow> string \<Rightarrow> RPCMethod" where
  \<open>MethodGet filterType dataXml =
     RawMethod (''<get><filter type="'' @ filterType @ ''">'' @ dataXml @ ''</filter></get>'')\<close>

definition MethodEditConfig :: "string \<Rightarrow> string \<Rightarrow> RPCMethod" where
  "MethodEditConfig database dataXml =
     RawMethod (''<edit-config>'' @ [CHR 0x0A]
       @ ''<target><'' @ database @ ''/></target>'' @ [CHR 0x0A]
       @ ''<default-operation>merge</default-operation>'' @ [CHR 0x0A]
       @ ''<error-option>rollback-on-error</error-option>'' @ [CHR 0x0A]
       @ ''<config>'' @ dataXml @ ''</config>'' @ [CHR 0x0A]
       @ ''</edit-config>'')"

definition MethodValidate :: "string \<Rightarrow> RPCMethod" where
  "MethodValidate source =
     RawMethod (''<validate><source><'' @ source @ ''/></source></validate>'')"

definition MethodSetConfig :: "string \<Rightarrow> RPCMethod" where
  \<open>MethodSetConfig config =
     RawMethod (''<load-configuration action="set" format="text"><configuration-set>''
       @ config @ ''</configuration-set></load-configuration>'')\<close>

definition MethodDiscard :: RPCMethod where
  "MethodDiscard = RawMethod ''<discard-changes/>''"

definition MethodCompare :: RPCMethod where
  \<open>MethodCompare =
     RawMethod ''<get-configuration compare="rollback" rollback="0" format="text"/>''\<close>

definition MethodCommit :: "string \<Rightarrow> RPCMethod" where
  "MethodCommit msg =
     RawMethod (''<commit-configuration><log>'' @ msg @ ''</log></commit-configuration>'')"

text \<open>
  The field \<open>MessageID\<close> of the source's RPCMessage is named \<open>MessageID_req\<close> here,
  since \<open>MessageID\<close> is the field of RPCReply. \<open>NewRPCMessage\<close> takes its identifier
  from \<open>msgID\<close>, which is \<open>uuid\<close>; the bytes of the random source are its argument.
\<close>

record RPCMessage =
  MessageID_req :: string
  Methods :: "RPCMethod list"

definition NewRPCMessage :: "8 word list \<Rightarrow> RPCMethod list \<Rightarrow> RPCMessage" where
  "NewRPCMessage src methods = \<lparr> MessageID_req = uuid src, Methods = methods \<rparr>"

subsection \<open>Encoding\<close>

text \<open>
  The encoder writes a start tag as the name and the attributes in order, each value
  escaped, then the inner markup as it is, then the end tag. \<open>MarshalXML\<close> names the
  element \<open>rpc\<close> and encodes the identifier, the namespace and the buffer of the
  rendered methods. \<open>xml.Marshal\<close> gives what \<open>MarshalXML\<close> wrote; nothing in this
  encoding fails. \<open>xml.Header\<close> ends with a newline.
\<close>

definition writeStart :: "string \<Rightarrow> (string \<times> string) list \<Rightarrow> string" where
  \<open>writeStart name attrs =
     ''<'' @ name
     @ concat (map (\<lambda>(k, v). '' '' @ k @ ''="'' @ EscapeString v @ ''"'') attrs)
     @ ''>''\<close>

definition writeEnd :: "string \<Rightarrow> string" where
  "writeEnd name = ''</'' @ name @ ''>''"

definition EncodeElement :: "string \<Rightarrow> string \<Rightarrow> string \<Rightarrow> string \<Rightarrow> string" where
  "EncodeElement start_name message_id xmlns methods =
     writeStart start_name [(''message-id'', message_id), (''xmlns'', xmlns)]
     @ methods @ writeEnd start_name"

definition MarshalXML :: "RPCMessage \<Rightarrow> string" where
  "MarshalXML m =
     (let buf = foldl (\<lambda>buf method. buf @ MarshalMethod method) [] (Methods m)
      in EncodeElement ''rpc'' (MessageID_req m) ''urn:ietf:params:xml:ns:netconf:base:1.0'' buf)"

definition xml_Marshal :: "RPCMessage \<Rightarrow> error + string" where
  "xml_Marshal m = Inr (MarshalXML m)"

definition xml_Header :: string where
  \<open>xml_Header = ''<?xml version="1.0" encoding="UTF-8"?>'' @ [CHR 0x0A]\<close>

text \<open>The request \<open>Exec\<close> hands to the transport: the first lines of \<open>Exec\<close>.\<close>

definition request_bytes :: "RPCMessage \<Rightarrow> error + string" where
  "request_bytes m =
     (case xml_Marshal m of
        Inl err \<Rightarrow> Inl err
      | Inr request \<Rightarrow> Inr (xml_Header @ request))"

text \<open>
  A session: what \<open>Transport.Send\<close> answers to a request, what the one call of
  \<open>Transport.Receive\<close> yields, and the strictness flag.
\<close>

record Session =
  Send :: "string \<Rightarrow> error option"
  Receive :: "error + string"
  ErrOnWarning :: bool

definition Exec ::
  "(string \<Rightarrow> error + element token list) \<Rightarrow> RPCMessage \<Rightarrow> Session
     \<Rightarrow> (RPCReply option \<times> error option) outcome" where
  "Exec ReadFromBytes m s =
     (case request_bytes m of
        Inl err \<Rightarrow> Return (None, Some err)
      | Inr request \<Rightarrow>
          (case Send s request of
             Some err \<Rightarrow> Return (None, Some err)
           | None \<Rightarrow>
               (case Receive s of
                  Inl err \<Rightarrow> Return (None, Some err)
                | Inr rawXML \<Rightarrow>
                    (case newRPCReply ReadFromBytes rawXML (ErrOnWarning s) (MessageID_req m) of
                       Panic p \<Rightarrow> Panic p
                     | Return (reply, Some err) \<Rightarrow> Return (None, Some err)
                     | Return (reply, None) \<Rightarrow> Return (reply, None)))))"

lemma foldl_MarshalMethod:
  "foldl (\<lambda>buf method. buf @ MarshalMethod method) acc ms = acc @ concat (map MarshalMethod ms)"
  by (induction ms arbitrary: acc) auto

lemma EscapeString_xmlns:
  "EscapeString ''urn:ietf:params:xml:ns:netconf:base:1.0'' = ''urn:ietf:params:xml:ns:netconf:base:1.0''"
  by (rule EscapeString_plain) (simp add: plain_char_def)

lemma hexdigit_plain: "c \<in> set hexdigits \<Longrightarrow> plain_char c"
  by (auto simp: hexdigits_def plain_char_def)

lemma hex_plain: "list_all plain_char (hex bs)"
  using hex_digits [of bs] hexdigit_plain by (auto simp: list_all_iff)

lemma uuid_plain: "list_all plain_char (uuid src)"
  by (simp add: uuid_def Let_def hex_plain) (simp add: plain_char_def)

lemma request_bytes_eq:
  \<open>request_bytes m =
     Inr (xml_Header @ ''<rpc message-id="'' @ EscapeString (MessageID_req m)
          @ ''" xmlns="urn:ietf:params:xml:ns:netconf:base:1.0">''
          @ concat (map MarshalMethod (Methods m)) @ ''</rpc>'')\<close>
  by (simp add: request_bytes_def xml_Marshal_def MarshalXML_def EncodeElement_def
      writeStart_def writeEnd_def foldl_MarshalMethod EscapeString_xmlns
      del: EscapeString.simps)

text \<open>
  C6, as stated, fails: the identifier is not always the value of the attribute. The
  encoder escapes attribute values, so for an identifier that is the one byte 0x01,
  which is no character of markup, the attribute holds the replacement character
  U+FFFD, and for the identifier \<open>a<b\<close> it holds \<open>a&lt;b\<close>.
\<close>

theorem identifier_escaped_in_envelope:
  \<open>request_bytes \<lparr> MessageID_req = [CHR 0x01], Methods = [MethodDiscard] \<rparr> =
     Inr (xml_Header @ ''<rpc message-id="'' @ escFFFD
          @ ''" xmlns="urn:ietf:params:xml:ns:netconf:base:1.0">''
          @ ''<discard-changes/>'' @ ''</rpc>'')
   \<and> escFFFD \<noteq> [CHR 0x01]
   \<and> request_bytes \<lparr> MessageID_req = ''a<b'', Methods = [MethodDiscard] \<rparr> =
     Inr (xml_Header @ ''<rpc message-id="a&lt;b"''
          @ '' xmlns="urn:ietf:params:xml:ns:netconf:base:1.0">''
          @ ''<discard-changes/>'' @ ''</rpc>'')\<close>
proof (intro conjI)
  have "EscapeString [CHR 0x01] = escFFFD"
    by (simp add: escape_rune_def isInCharacterRange_def)
  then show \<open>request_bytes \<lparr> MessageID_req = [CHR 0x01], Methods = [MethodDiscard] \<rparr> =
     Inr (xml_Header @ ''<rpc message-id="'' @ escFFFD
          @ ''" xmlns="urn:ietf:params:xml:ns:netconf:base:1.0">''
          @ ''<discard-changes/>'' @ ''</rpc>'')\<close>
    by (simp add: request_bytes_eq MethodDiscard_def del: EscapeString.simps)
  show "escFFFD \<noteq> [CHR 0x01]"
    by (simp add: escFFFD_def)
  have "EscapeString ''a<b'' = ''a&lt;b''"
    by (simp add: escape_rune_def isInCharacterRange_def)
  then show \<open>request_bytes \<lparr> MessageID_req = ''a<b'', Methods = [MethodDiscard] \<rparr> =
     Inr (xml_Header @ ''<rpc message-id="a&lt;b"''
          @ '' xmlns="urn:ietf:params:xml:ns:netconf:base:1.0">''
          @ ''<discard-changes/>'' @ ''</rpc>'')\<close>
    by (simp add: request_bytes_eq MethodDiscard_def del: EscapeString.simps)
qed

text \<open>
  C6, amended. For every identifier and every list of methods, the request is the
  document header, then one \<open>rpc\<close> element whose \<open>message-id\<close> attribute is the
  identifier as the encoder escapes it and whose \<open>xmlns\<close> attribute is the fixed
  namespace, then the rendered methods one after the other in the order of the list,
  then the end tag. The escaped identifier is the identifier itself whenever all its
  characters are printable ASCII other than the double quote, the apostrophe, the
  ampersand and the two angle brackets; every
  identifier of the generator is such, so a message made by \<open>NewRPCMessage\<close> carries
  its identifier unchanged. The request is a function of the message alone.
\<close>

theorem request_envelope:
  \<open>request_bytes m =
     Inr (xml_Header @ ''<rpc message-id="'' @ EscapeString (MessageID_req m)
          @ ''" xmlns="urn:ietf:params:xml:ns:netconf:base:1.0">''
          @ concat (map MarshalMethod (Methods m)) @ ''</rpc>'')
   \<and> (list_all plain_char (MessageID_req m)
        \<longrightarrow> EscapeString (MessageID_req m) = MessageID_req m)
   \<and> request_bytes (NewRPCMessage src methods) =
     Inr (xml_Header @ ''<rpc message-id="'' @ uuid src
          @ ''" xmlns="urn:ietf:params:xml:ns:netconf:base:1.0">''
          @ concat (map MarshalMethod methods) @ ''</rpc>'')\<close>
proof (intro conjI impI)
  show \<open>request_bytes m =
     Inr (xml_Header @ ''<rpc message-id="'' @ EscapeString (MessageID_req m)
          @ ''" xmlns="urn:ietf:params:xml:ns:netconf:base:1.0">''
          @ concat (map MarshalMethod (Methods m)) @ ''</rpc>'')\<close>
    by (rule request_bytes_eq)
next
  assume "list_all plain_char (MessageID_req m)"
  then show "EscapeString (MessageID_req m) = MessageID_req m"
    by (rule EscapeString_plain)
next
  have "EscapeString (uuid src) = uuid src"
    by (rule EscapeString_plain) (rule uuid_plain)
  then show \<open>request_bytes (NewRPCMessage src methods) =
     Inr (xml_Header @ ''<rpc message-id="'' @ uuid src
          @ ''" xmlns="urn:ietf:params:xml:ns:netconf:base:1.0">''
          @ concat (map MarshalMethod methods) @ ''</rpc>'')\<close>
    by (simp add: request_bytes_eq NewRPCMessage_def del: EscapeString.simps)
qed

text \<open>A lock followed by a discard, under a fixed identifier.\<close>

definition lock_then_discard :: RPCMessage where
  "lock_then_discard =
     \<lparr> MessageID_req = ''9f3a00c4-51ee-4708-ad12-ab40770bd9ff'',
       Methods = [MethodLock ''candidate'', MethodDiscard] \<rparr>"

theorem request_envelope_witness:
  \<open>list_all plain_char (MessageID_req lock_then_discard)
   \<and> request_bytes lock_then_discard =
     Inr (''<?xml version="1.0" encoding="UTF-8"?>'' @ [CHR 0x0A]
          @ ''<rpc message-id="9f3a00c4-51ee-4708-ad12-ab40770bd9ff"''
          @ '' xmlns="urn:ietf:params:xml:ns:netconf:base:1.0">''
          @ ''<lock><target><candidate/></target></lock><discard-changes/></rpc>'')\<close>
proof -
  have p: "list_all plain_char (MessageID_req lock_then_discard)"
    by (simp add: lock_then_discard_def plain_char_def)
  with request_envelope [of lock_then_discard]
  have e: "EscapeString (MessageID_req lock_then_discard) = MessageID_req lock_then_discard"
    by blast
  from request_envelope [of lock_then_discard]
  have \<open>request_bytes lock_then_discard =
     Inr (xml_Header @ ''<rpc message-id="'' @ EscapeString (MessageID_req lock_then_discard)
          @ ''" xmlns="urn:ietf:params:xml:ns:netconf:base:1.0">''
          @ concat (map MarshalMethod (Methods lock_then_discard)) @ ''</rpc>'')\<close>
    by blast
  then have \<open>request_bytes lock_then_discard =
     Inr (''<?xml version="1.0" encoding="UTF-8"?>'' @ [CHR 0x0A]
          @ ''<rpc message-id="9f3a00c4-51ee-4708-ad12-ab40770bd9ff"''
          @ '' xmlns="urn:ietf:params:xml:ns:netconf:base:1.0">''
          @ ''<lock><target><candidate/></target></lock><discard-changes/></rpc>'')\<close>
    unfolding e
    by (simp add: lock_then_discard_def xml_Header_def MethodLock_def MethodDiscard_def)
  with p show ?thesis by blast
qed

section \<open>Credentials\<close>

text \<open>
  A credential builds the authentication configuration of the transport with
  \<open>Config\<close>. The builders \<open>SSHConfigPassword\<close> and \<open>SSHConfigPubKeyFile\<close> are functions
  of the repository outside the files at hand, so they are parameters here, and the
  configuration is a type parameter. The source holds two versions of the key-based
  credential: one names a key file, the other holds the key and passes a newline as
  the passphrase. In both, \<open>Config\<close> has the configuration as its only result and
  calls \<open>panic(err)\<close> when the builder fails.
\<close>

record PlainPassword =
  User :: string
  Password :: string

definition PlainPassword_Config ::
  "(string \<Rightarrow> string \<Rightarrow> 'cfg) \<Rightarrow> PlainPassword \<Rightarrow> 'cfg outcome" where
  "PlainPassword_Config SSHConfigPassword p = Return (SSHConfigPassword (User p) (Password p))"

record PublicKey =
  User_pk :: string
  File :: string

definition PublicKey_Config ::
  "(string \<Rightarrow> string \<Rightarrow> error + 'cfg) \<Rightarrow> PublicKey \<Rightarrow> 'cfg outcome" where
  "PublicKey_Config SSHConfigPubKeyFile p =
     (case SSHConfigPubKeyFile (User_pk p) (File p) of
        Inl err \<Rightarrow> Panic (PanicErr err)
      | Inr cfg \<Rightarrow> Return cfg)"

record PublicKey_v2 =
  User_v2 :: string
  Key :: string

definition PublicKey_v2_Config ::
  "(string \<Rightarrow> string \<Rightarrow> string \<Rightarrow> error + 'cfg) \<Rightarrow> PublicKey_v2 \<Rightarrow> 'cfg outcome" where
  "PublicKey_v2_Config SSHConfigPubKeyFile p =
     (case SSHConfigPubKeyFile (User_v2 p) (Key p) [CHR 0x0A] of
        Inl err \<Rightarrow> Panic (PanicErr err)
      | Inr cfg \<Rightarrow> Return cfg)"

text \<open>
  A key loader that finds no key in any file, one that takes every file and gives the
  user name as the configuration, and their like with a passphrase.
\<close>

definition no_key_found :: "string \<Rightarrow> string \<Rightarrow> error + string" where
  "no_key_found user file = Inl (KeyError ''ssh: no key found'')"

definition any_key :: "string \<Rightarrow> string \<Rightarrow> error + string" where
  "any_key user file = Inr user"

definition no_key_found_v2 :: "string \<Rightarrow> string \<Rightarrow> string \<Rightarrow> error + string" where
  "no_key_found_v2 user key passphrase = Inl (KeyError ''ssh: no key found'')"

text \<open>
  C4, as stated, fails: with key material the loader rejects, \<open>Config\<close> does not return
  an error to the caller. It panics with the loader's error, in both versions.
\<close>

theorem malformed_key_panics:
  "PublicKey_Config no_key_found \<lparr> User_pk = ''admin'', File = ''id_rsa'' \<rparr> =
     Panic (PanicErr (KeyError ''ssh: no key found''))
   \<and> PublicKey_v2_Config no_key_found_v2 \<lparr> User_v2 = ''admin'', Key = ''not a key'' \<rparr> =
     Panic (PanicErr (KeyError ''ssh: no key found''))"
  by (simp add: PublicKey_Config_def PublicKey_v2_Config_def no_key_found_def
      no_key_found_v2_def)

text \<open>
  C4, amended. For every key-based credential, \<open>Config\<close> returns the configuration
  the key loader built when the loader succeeds, and panics with the loader's error
  when the loader fails, as on malformed key material; it never returns an error
  value. This holds for both versions of the credential.
\<close>

theorem key_config_returns_or_panics:
  "(\<forall>cfg. SSHConfigPubKeyFile (User_pk p) (File p) = Inr cfg
       \<longrightarrow> PublicKey_Config SSHConfigPubKeyFile p = Return cfg)
   \<and> (\<forall>err. SSHConfigPubKeyFile (User_pk p) (File p) = Inl err
       \<longrightarrow> PublicKey_Config SSHConfigPubKeyFile p = Panic (PanicErr err))
   \<and> (\<forall>cfg. SSHConfigPubKeyFile_v2 (User_v2 q) (Key q) [CHR 0x0A] = Inr cfg
       \<longrightarrow> PublicKey_v2_Config SSHConfigPubKeyFile_v2 q = Return cfg)
   \<and> (\<forall>err. SSHConfigPubKeyFile_v2 (User_v2 q) (Key q) [CHR 0x0A] = Inl err
       \<longrightarrow> PublicKey_v2_Config SSHConfigPubKeyFile_v2 q = Panic (PanicErr err))"
  by (simp add: PublicKey_Config_def PublicKey_v2_Config_def)

theorem key_config_returns_or_panics_witness:
  "any_key ''admin'' ''id_rsa'' = Inr ''admin''
   \<and> PublicKey_Config any_key \<lparr> User_pk = ''admin'', File = ''id_rsa'' \<rparr> = Return ''admin''
   \<and> no_key_found_v2 ''admin'' ''not a key'' [CHR 0x0A] = Inl (KeyError ''ssh: no key found'')
   \<and> PublicKey_v2_Config no_key_found_v2 \<lparr> User_v2 = ''admin'', Key = ''not a key'' \<rparr> =
       Panic (PanicErr (KeyError ''ssh: no key found''))"
proof -
  let ?p = "\<lparr> User_pk = ''admin'', File = ''id_rsa'' \<rparr>"
  let ?q = "\<lparr> User_v2 = ''admin'', Key = ''not a key'' \<rparr>"
  note inst = key_config_returns_or_panics [of any_key ?p no_key_found_v2 ?q]
  have a: "any_key (User_pk ?p) (File ?p) = Inr ''admin''"
    by (simp add: any_key_def)
  have n: "no_key_found_v2 (User_v2 ?q) (Key ?q) [CHR 0x0A] = Inl (KeyError ''ssh: no key found'')"
    by (simp add: no_key_found_v2_def)
  from inst have "\<forall>cfg. any_key (User_pk ?p) (File ?p) = Inr cfg
       \<longrightarrow> PublicKey_Config any_key ?p = Return cfg" by (rule conjunct1)
  with a have 1: "PublicKey_Config any_key ?p = Return ''admin''" by blast
  from inst have "\<forall>err. no_key_found_v2 (User_v2 ?q) (Key ?q) [CHR 0x0A] = Inl err
       \<longrightarrow> PublicKey_v2_Config no_key_found_v2 ?q = Panic (PanicErr err)"
    by (rule conjunct2 [OF conjunct2 [OF conjunct2]])
  with n have 2: "PublicKey_v2_Config no_key_found_v2 ?q =
       Panic (PanicErr (KeyError ''ssh: no key found''))" by blast
  from a n 1 2 show ?thesis by simp
qed

end
